theory Spec2Isabelle
  imports Main
begin

section \<open>Data model\<close>

text \<open>
  The rows of the relational store, as the migration declares them. Ids are TEXT,
  timestamps are milliseconds since the epoch, a nullable column is an option.
\<close>

datatype UserRole = MEMBER | ADMIN

datatype InvitationStatus = PENDING | ACCEPTED | REJECTED

datatype ActivityType =
    EMAIL_SIGN_UP | LINK_GITHUB_ACCOUNT | LINK_GOOGLE_ACCOUNT | EMAIL_SIGN_IN
  | GITHUB_SIGN_IN | GOOGLE_SIGN_IN | SIGN_OUT | UPDATE_PASSWORD | DELETE_ACCOUNT
  | UPDATE_ACCOUNT | CREATE_TEAM | REMOVE_TEAM_MEMBER | INVITE_TEAM_MEMBER
  | ACCEPT_INVITATION

record User =
  user_id :: string
  user_name :: "string option"
  user_email :: string
  user_passwordHash :: "string option"
  user_githubId :: "string option"
  user_googleId :: "string option"
  user_createdAt :: int
  user_updatedAt :: int
  user_deletedAt :: "int option"

record Team =
  team_id :: string
  team_name :: string
  team_stripeCustomerId :: "string option"
  team_stripeSubscriptionId :: "string option"
  team_stripeProductId :: "string option"
  team_planName :: "string option"
  team_subscriptionStatus :: "string option"
  team_createdAt :: int
  team_updatedAt :: int

record TeamMember =
  member_id :: string
  member_userId :: string
  member_teamId :: string
  member_role :: UserRole
  member_createdAt :: int

record ActivityLog =
  log_id :: string
  log_teamId :: string
  log_userId :: "string option"
  log_action :: ActivityType
  log_ipAddress :: "string option"
  log_createdAt :: int

record Invitation =
  invitation_id :: string
  invitation_teamId :: string
  invitation_invitedBy :: string
  invitation_email :: string
  invitation_role :: UserRole
  invitation_status :: InvitationStatus
  invitation_createdAt :: int

subsection \<open>Session payload and signed token\<close>

text \<open>
  \<^verbatim>\<open>type UserData = { userId: string; teamId: string; userRole: UserRole }\<close> and
  \<^verbatim>\<open>type SessionData = UserData & { expires: string }\<close>.
\<close>

record UserData =
  userId :: string
  teamId :: string
  userRole :: UserRole

record SessionData = UserData +
  expires :: string

text \<open>
  The claim set that the token carries: the session fields as custom claims, plus the
  registered claims \<open>iat\<close> and \<open>exp\<close> (seconds since the epoch).
\<close>

record JWTPayload = SessionData +
  iat :: "int option"
  exp :: "int option"

record JWSHeader =
  alg :: string

text \<open>
  A cookie value is a string. It is represented by its reading: \<open>JWS h p s\<close> is the
  compact serialisation of protected header \<open>h\<close>, claim set \<open>p\<close> and signature \<open>s\<close>;
  \<open>Malformed s\<close> is any other text \<open>s\<close> (in particular \<open>Malformed []\<close> is the empty
  string).
\<close>

datatype token =
    JWS JWSHeader JWTPayload string
  | Malformed string

datatype JOSEError =
    JWSInvalid
  | JOSEAlgNotAllowed
  | JWSSignatureVerificationFailed
  | JWTExpired

datatype PrismaError =
    UniqueConstraintFailed string
  | ForeignKeyConstraintFailed string
  | RequiredRelationMissing string

datatype Error =
    Error string
  | JOSE JOSEError
  | Prisma PrismaError
  | TypeError string

subsection \<open>Request context, store and process environment\<close>

text \<open>
  A cookie as \<^verbatim>\<open>cookies().set(name, value, options)\<close> writes it. The \<open>expires\<close>
  attribute is a JavaScript Date: \<open>None\<close> is the invalid date.
\<close>

record Cookie =
  cookie_value :: token
  cookie_expires :: "int option"
  cookie_httpOnly :: bool
  cookie_secure :: bool
  cookie_sameSite :: string

text \<open>
  Everything a server action reads or writes: the cookie jar of the request context,
  the clock (\<^verbatim>\<open>Date.now()\<close>, milliseconds), the tables, the console, and the counter
  from which the storage client draws the ids of new rows. One call of an action runs at
  one instant of the clock; a later request is the same store with a later clock.
\<close>

record World =
  cookies :: "string \<rightharpoonup> Cookie"
  now :: int
  users :: "User list"
  teams :: "Team list"
  teamMembers :: "TeamMember list"
  activityLogs :: "ActivityLog list"
  invitations :: "Invitation list"
  console :: "string list"
  idCounter :: nat

text \<open>
  What the process is started with and the primitives of its libraries that the code
  calls but does not define: the secret \<^verbatim>\<open>process.env.AUTH_SECRET\<close>, the keyed hash
  behind a JWS signature (by algorithm name, key and signing input), the two Date
  conversions, bcrypt, and the id generator of the storage client.
\<close>

record Env =
  AUTH_SECRET :: string
  hmac :: "string \<Rightarrow> string \<Rightarrow> JWSHeader \<times> JWTPayload \<Rightarrow> string"
  toISOString :: "int \<Rightarrow> string"
  parseDate :: "string \<Rightarrow> int option"
  bcrypt_hash :: "string \<Rightarrow> nat \<Rightarrow> string"
  bcrypt_compare :: "string \<Rightarrow> string \<Rightarrow> bool"
  cuid :: "nat \<Rightarrow> string"

section \<open>The token library\<close>

text \<open>
  Modelled from the spec: the jose library (\<^verbatim>\<open>SignJWT\<close>, \<^verbatim>\<open>jwtVerify\<close>) is not
  part of the sources. Signing serialises the protected header and the claim set and
  appends the keyed hash of both under the header's algorithm. Verification refuses a
  text that is no token, then a header algorithm outside the \<open>algorithms\<close> option, then
  a signature that is not the keyed hash under the header's algorithm, then an \<open>exp\<close>
  claim that is not after the current time in seconds; otherwise it returns the claim
  set.
\<close>

definition SignJWT_sign :: "Env \<Rightarrow> JWSHeader \<Rightarrow> JWTPayload \<Rightarrow> string \<Rightarrow> token" where
  "SignJWT_sign E h p k = JWS h p (hmac E (alg h) k (h, p))"

definition jwtVerify :: "Env \<Rightarrow> token \<Rightarrow> string \<Rightarrow> string list \<Rightarrow> int \<Rightarrow> JOSEError + JWTPayload" where
  "jwtVerify E jwt k algorithms t =
     (case jwt of
        Malformed s \<Rightarrow> Inl JWSInvalid
      | JWS h p sg \<Rightarrow>
          if alg h \<notin> set algorithms then Inl JOSEAlgNotAllowed
          else if sg \<noteq> hmac E (alg h) k (h, p) then Inl JWSSignatureVerificationFailed
          else (case exp p of
                  None \<Rightarrow> Inr p
                | Some e \<Rightarrow> if e \<le> t div 1000 then Inl JWTExpired else Inr p))"

section \<open>Sessions: \<^verbatim>\<open>src/unnamed/part_000\<close>, imported as \<^verbatim>\<open>lib/auth/session\<close>\<close>

definition SALT_ROUNDS :: nat where
  "SALT_ROUNDS = 10"

definition hashPassword :: "Env \<Rightarrow> string \<Rightarrow> string" where
  "hashPassword E password = bcrypt_hash E password SALT_ROUNDS"

definition comparePasswords :: "Env \<Rightarrow> string \<Rightarrow> string \<Rightarrow> bool" where
  "comparePasswords E plainTextPassword hashedPassword =
     bcrypt_compare E plainTextPassword hashedPassword"

text \<open>
  \<^verbatim>\<open>new SignJWT(payload).setProtectedHeader({ alg: "HS256" }).setIssuedAt()
  .setExpirationTime("1 day from now").sign(key)\<close>, at clock \<open>t\<close> (milliseconds).
\<close>

definition signToken :: "Env \<Rightarrow> int \<Rightarrow> SessionData \<Rightarrow> token" where
  "signToken E t payload =
     SignJWT_sign E \<lparr>alg = ''HS256''\<rparr>
       \<lparr>userId = userId payload, teamId = teamId payload, userRole = userRole payload,
        expires = expires payload,
        iat = Some (t div 1000), exp = Some (t div 1000 + 86400)\<rparr>
       (AUTH_SECRET E)"

text \<open>\<^verbatim>\<open>payload as SessionData\<close>: the session fields of the verified claim set.\<close>

definition asSessionData :: "JWTPayload \<Rightarrow> SessionData" where
  "asSessionData p =
     \<lparr>userId = userId p, teamId = teamId p, userRole = userRole p, expires = expires p\<rparr>"

definition verifyToken :: "Env \<Rightarrow> int \<Rightarrow> token \<Rightarrow> JOSEError + SessionData" where
  "verifyToken E t input =
     (case jwtVerify E input (AUTH_SECRET E) [''HS256''] t of
        Inl e \<Rightarrow> Inl e
      | Inr payload \<Rightarrow> Inr (asSessionData payload))"

text \<open>
  \<open>Inl e\<close>: the promise rejects with \<open>e\<close>. \<open>Inr None\<close>: it resolves to \<^verbatim>\<open>null\<close>.
  The test \<^verbatim>\<open>!session\<close> holds for a missing cookie and for the empty string.
\<close>

definition getSession :: "Env \<Rightarrow> World \<Rightarrow> Error + SessionData option" where
  "getSession E w =
     (case cookies w ''session'' of
        None \<Rightarrow> Inr None
      | Some c \<Rightarrow>
          if cookie_value c = Malformed [] then Inr None
          else (case verifyToken E (now w) (cookie_value c) of
                  Inl e \<Rightarrow> Inl (JOSE e)
                | Inr s \<Rightarrow> Inr (Some s)))"

definition setSession :: "Env \<Rightarrow> UserData \<Rightarrow> World \<Rightarrow> World" where
  "setSession E userData w =
     (let expiresInOneDay = now w + 24 * 60 * 60 * 1000;
          session = \<lparr>userId = userId userData, teamId = teamId userData,
                     userRole = userRole userData,
                     expires = toISOString E expiresInOneDay\<rparr>;
          encryptedSession = signToken E (now w) session
      in w\<lparr>cookies := (cookies w)(''session'' \<mapsto>
             \<lparr>cookie_value = encryptedSession, cookie_expires = Some expiresInOneDay,
              cookie_httpOnly = True, cookie_secure = True, cookie_sameSite = ''lax''\<rparr>)\<rparr>)"

definition updateSession :: "Env \<Rightarrow> UserData \<Rightarrow> World \<Rightarrow> Error + World" where
  "updateSession E userData w =
     (case getSession E w of
        Inl e \<Rightarrow> Inl e
      | Inr None \<Rightarrow> Inr (setSession E userData w)
      | Inr (Some exstingSession) \<Rightarrow>
          (let session = \<lparr>userId = userId userData, teamId = teamId userData,
                          userRole = userRole userData,
                          expires = expires exstingSession\<rparr>;
               encryptedSession = signToken E (now w) session
           in Inr (w\<lparr>cookies := (cookies w)(''session'' \<mapsto>
                \<lparr>cookie_value = encryptedSession,
                 cookie_expires = parseDate E (expires exstingSession),
                 cookie_httpOnly = True, cookie_secure = True,
                 cookie_sameSite = ''lax''\<rparr>)\<rparr>)))"

definition getUser :: "Env \<Rightarrow> World \<Rightarrow> Error + User option" where
  "getUser E w =
     (case getSession E w of
        Inl e \<Rightarrow> Inl e
      | Inr None \<Rightarrow> Inr None
      | Inr (Some session) \<Rightarrow>
          if userId session = [] then Inr None
          else Inr (find (\<lambda>u. user_id u = userId session) (users w)))"

section \<open>The storage client\<close>

text \<open>
  Modelled from the spec: the Prisma client is not part of the sources. A table is the
  list of its rows in insertion order and \<^verbatim>\<open>findFirst({ where })\<close> is \<^const>\<open>find\<close> with
  the \<^verbatim>\<open>where\<close> clause as predicate. A \<^verbatim>\<open>create\<close> draws the id of the new row from the
  id generator, stamps \<open>createdAt\<close> with the clock, and fails on the constraints of the
  migration: the unique index on \<open>User.email\<close> and the foreign keys of \<open>TeamMember\<close> and
  \<open>ActivityLog\<close>.
\<close>

definition prisma_user_create :: "Env \<Rightarrow> string \<Rightarrow> string \<Rightarrow> World \<Rightarrow> PrismaError + User \<times> World" where
  "prisma_user_create E email passwordHash w =
     (if email \<in> set (map user_email (users w)) then Inl (UniqueConstraintFailed ''email'')
      else
        (let row = \<lparr>user_id = cuid E (idCounter w), user_name = None, user_email = email,
                    user_passwordHash = Some passwordHash, user_githubId = None,
                    user_googleId = None, user_createdAt = now w, user_updatedAt = now w,
                    user_deletedAt = None\<rparr>
         in Inr (row, w\<lparr>users := users w @ [row], idCounter := Suc (idCounter w)\<rparr>)))"

definition prisma_team_create :: "Env \<Rightarrow> string \<Rightarrow> World \<Rightarrow> Team \<times> World" where
  "prisma_team_create E name w =
     (let row = \<lparr>team_id = cuid E (idCounter w), team_name = name,
                 team_stripeCustomerId = None, team_stripeSubscriptionId = None,
                 team_stripeProductId = None, team_planName = None,
                 team_subscriptionStatus = None, team_createdAt = now w,
                 team_updatedAt = now w\<rparr>
      in (row, w\<lparr>teams := teams w @ [row], idCounter := Suc (idCounter w)\<rparr>))"

definition prisma_teamMember_create :: "Env \<Rightarrow> string \<Rightarrow> string \<Rightarrow> UserRole \<Rightarrow> World \<Rightarrow> PrismaError + World" where
  "prisma_teamMember_create E uid tid role w =
     (if uid \<notin> set (map user_id (users w)) then Inl (ForeignKeyConstraintFailed ''TeamMember_userId_fkey'')
      else if tid \<notin> set (map team_id (teams w)) then Inl (ForeignKeyConstraintFailed ''TeamMember_teamId_fkey'')
      else Inr (w\<lparr>teamMembers := teamMembers w @
                  [\<lparr>member_id = cuid E (idCounter w), member_userId = uid, member_teamId = tid,
                    member_role = role, member_createdAt = now w\<rparr>],
                idCounter := Suc (idCounter w)\<rparr>))"

definition prisma_activityLog_create :: "Env \<Rightarrow> string \<Rightarrow> string \<Rightarrow> ActivityType \<Rightarrow> string \<Rightarrow> World \<Rightarrow> PrismaError + World" where
  "prisma_activityLog_create E tid uid action ipAddress w =
     (if tid \<notin> set (map team_id (teams w)) then Inl (ForeignKeyConstraintFailed ''ActivityLog_teamId_fkey'')
      else if uid \<notin> set (map user_id (users w)) then Inl (ForeignKeyConstraintFailed ''ActivityLog_userId_fkey'')
      else Inr (w\<lparr>activityLogs := activityLogs w @
                  [\<lparr>log_id = cuid E (idCounter w), log_teamId = tid, log_userId = Some uid,
                    log_action = action, log_ipAddress = Some ipAddress,
                    log_createdAt = now w\<rparr>],
                idCounter := Suc (idCounter w)\<rparr>))"

definition prisma_invitation_update :: "string \<Rightarrow> InvitationStatus \<Rightarrow> World \<Rightarrow> World" where
  "prisma_invitation_update iid st w =
     w\<lparr>invitations :=
         map (\<lambda>i. if invitation_id i = iid then i\<lparr>invitation_status := st\<rparr> else i)
           (invitations w)\<rparr>"

section \<open>Action guards: \<^verbatim>\<open>src/lib/auth/middleware.ts\<close>\<close>

text \<open>
  A submitted form is its list of entries. \<^verbatim>\<open>formData.get(k)\<close> is the first value
  under \<open>k\<close>; \<^verbatim>\<open>Object.fromEntries(formData)\<close> keeps the last.
\<close>

type_synonym FormData = "(string \<times> string) list"

definition formData_get :: "FormData \<Rightarrow> string \<Rightarrow> string option" where
  "formData_get formData k = map_of formData k"

definition Object_fromEntries :: "FormData \<Rightarrow> (string \<rightharpoonup> string)" where
  "Object_fromEntries formData = map_of (rev formData)"

text \<open>
  A schema is its \<^verbatim>\<open>safeParse\<close>: the messages of the issues (\<^verbatim>\<open>result.error.errors\<close>,
  in order) when the parse fails, the parsed data when it succeeds.
\<close>

type_synonym 'd Schema = "(string \<rightharpoonup> string) \<Rightarrow> string list + 'd"

record ActionState =
  error :: "string option"
  success :: "string option"

text \<open>
  How a server action ends: it returns a value, it throws, or it navigates
  (\<^verbatim>\<open>redirect(path)\<close> ends the request). The return type \<open>T\<close> of an action is
  \<open>ActionState + 'r\<close>: an object with \<open>error\<close> or \<open>success\<close>, or whatever else the action
  returns; the cast \<^verbatim>\<open>{ error: m } as T\<close> is \<open>Inl\<close>.
\<close>

datatype 'r outcome =
    Returned 'r
  | Threw Error
  | Redirected string

definition validatedAction ::
  "'d Schema \<Rightarrow> ('d \<Rightarrow> FormData \<Rightarrow> World \<Rightarrow> (ActionState + 'r) outcome \<times> World) \<Rightarrow>
   ActionState \<Rightarrow> FormData \<Rightarrow> World \<Rightarrow> (ActionState + 'r) outcome \<times> World" where
  "validatedAction schema action prevState formData w =
     (case schema (Object_fromEntries formData) of
        Inl errors \<Rightarrow>
          (case errors of
             [] \<Rightarrow> (Threw (TypeError ''Cannot read properties of undefined''), w)
           | message # _ \<Rightarrow> (Returned (Inl \<lparr>error = Some message, success = None\<rparr>), w))
      | Inr data \<Rightarrow> action data formData w)"

definition validatedActionWithUser ::
  "Env \<Rightarrow> 'd Schema \<Rightarrow>
   ('d \<Rightarrow> FormData \<Rightarrow> User \<Rightarrow> World \<Rightarrow> (ActionState + 'r) outcome \<times> World) \<Rightarrow>
   ActionState \<Rightarrow> FormData \<Rightarrow> World \<Rightarrow> (ActionState + 'r) outcome \<times> World" where
  "validatedActionWithUser E schema action prevState formData w =
     (case getSession E w of
        Inl e \<Rightarrow> (Threw e, w)
      | Inr None \<Rightarrow> (Threw (Error ''User is not authenticated''), w)
      | Inr (Some session) \<Rightarrow>
          (case find (\<lambda>u. user_id u = userId session) (users w) of
             None \<Rightarrow> (Threw (Error ''User not found''), w)
           | Some user \<Rightarrow>
               (case schema (Object_fromEntries formData) of
                  Inl errors \<Rightarrow>
                    (case errors of
                       [] \<Rightarrow> (Threw (TypeError ''Cannot read properties of undefined''), w)
                     | message # _ \<Rightarrow>
                         (Returned (Inl \<lparr>error = Some message, success = None\<rparr>), w))
                | Inr data \<Rightarrow> action data formData user w)))"

record AuthData =
  auth_user :: User
  auth_userRole :: UserRole
  auth_team :: Team

definition withAuth ::
  "Env \<Rightarrow> (FormData \<Rightarrow> AuthData \<Rightarrow> World \<Rightarrow> 'r outcome \<times> World) \<Rightarrow>
   FormData \<Rightarrow> World \<Rightarrow> 'r outcome \<times> World" where
  "withAuth E action formData w =
     (case getSession E w of
        Inl e \<Rightarrow> (Threw e, w)
      | Inr None \<Rightarrow> (Redirected ''/sign-in'', w)
      | Inr (Some session) \<Rightarrow>
          (case find (\<lambda>u. user_id u = userId session) (users w) of
             None \<Rightarrow> (Redirected ''/sign-in'', w)
           | Some user \<Rightarrow>
               (case find (\<lambda>t. team_id t = teamId session) (teams w) of
                  None \<Rightarrow> (Redirected ''/sign-in'', w)
                | Some team \<Rightarrow>
                    action formData
                      \<lparr>auth_user = user, auth_userRole = userRole session, auth_team = team\<rparr>
                      w)))"

section \<open>Sign-up and sign-out actions: \<^verbatim>\<open>src/unnamed/part_002\<close>\<close>

text \<open>\<open>Inl e\<close>: the promise rejects with \<open>e\<close>; the store is then as it was.\<close>

definition logActivity :: "Env \<Rightarrow> ActivityType \<Rightarrow> string option \<Rightarrow> World \<Rightarrow> Error + World" where
  "logActivity E type ipAddress w =
     (case getSession E w of
        Inl e \<Rightarrow> Inl e
      | Inr None \<Rightarrow> Inr (w\<lparr>console := console w @ [''No session data.'']\<rparr>)
      | Inr (Some session) \<Rightarrow>
          (case prisma_activityLog_create E (teamId session) (userId session) type
                  (case ipAddress of None \<Rightarrow> [] | Some a \<Rightarrow> a) w of
             Inl e \<Rightarrow> Inl (Prisma e)
           | Inr w' \<Rightarrow> Inr w'))"

text \<open>
  A promise that has been started and not yet awaited: the call runs at once, its
  rejection is kept until the promise is awaited. \<^verbatim>\<open>Promise.all\<close> rejects with the
  first rejection among its promises.
\<close>

definition started :: "(World \<Rightarrow> Error + World) \<Rightarrow> World \<Rightarrow> (Error + unit) \<times> World" where
  "started f w = (case f w of Inl e \<Rightarrow> (Inl e, w) | Inr w' \<Rightarrow> (Inr (), w'))"

fun Promise_all :: "(Error + unit) list \<Rightarrow> Error + unit" where
  "Promise_all [] = Inr ()"
| "Promise_all (Inl e # ps) = Inl e"
| "Promise_all (Inr u # ps) = Promise_all ps"

record SignUpData =
  email :: string
  password :: string
  inviteId :: "string option"

text \<open>
  The billing collaborator \<^verbatim>\<open>createCheckoutSession({ team, priceId })\<close> is a parameter
  of the action.
\<close>

type_synonym Checkout = "Team \<Rightarrow> string option \<Rightarrow> World \<Rightarrow> (ActionState + unit) outcome \<times> World"

text \<open>
  The action that \<^verbatim>\<open>signUp\<close> wraps. \<^verbatim>\<open>logs.push(logActivity(...))\<close> starts the call
  where it stands, so it reads the session cookie as it is before \<^verbatim>\<open>setSession\<close>; its
  rejection surfaces at \<^verbatim>\<open>await Promise.all(logs)\<close>. The two writes under
  \<^verbatim>\<open>Promise.all([...])\<close> are both issued, in order, and the first failure is thrown.
  The tests \<^verbatim>\<open>!createdUser\<close> and \<^verbatim>\<open>!newTeam\<close> never hold: a \<^verbatim>\<open>create\<close> returns the row
  or throws. \<open>signUp_finish\<close> is the part of the action after the team is known, from
  \<^verbatim>\<open>await setSession\<close> on.
\<close>

definition signUp_finish ::
  "Env \<Rightarrow> Checkout \<Rightarrow> User \<Rightarrow> Team \<Rightarrow> (Error + unit) list \<Rightarrow> FormData \<Rightarrow> World \<Rightarrow>
   (ActionState + unit) outcome \<times> World" where
  "signUp_finish E createCheckoutSession createdUser team logs formData w =
     (let w1 = setSession E \<lparr>userId = user_id createdUser, teamId = team_id team,
                             userRole = ADMIN\<rparr> w;
          (l, w2) = started (logActivity E EMAIL_SIGN_UP None) w1
      in case Promise_all (logs @ [l]) of
           Inl e \<Rightarrow> (Threw e, w2)
         | Inr u \<Rightarrow>
             if formData_get formData ''redirect'' = Some ''checkout''
             then createCheckoutSession team (formData_get formData ''priceId'') w2
             else (Redirected ''/dashboard'', w2))"

definition signUp_action ::
  "Env \<Rightarrow> Checkout \<Rightarrow> SignUpData \<Rightarrow> FormData \<Rightarrow> World \<Rightarrow>
   (ActionState + unit) outcome \<times> World" where
  "signUp_action E createCheckoutSession data formData w =
     (case find (\<lambda>u. user_email u = email data \<and> user_deletedAt u = None) (users w) of
        Some existingUser \<Rightarrow>
          (Returned (Inl \<lparr>error = Some ''Failed to create user. User already exists.'',
                         success = None\<rparr>), w)
      | None \<Rightarrow>
          (case prisma_user_create E (email data) (hashPassword E (password data)) w of
             Inl e \<Rightarrow> (Threw (Prisma e), w)
           | Inr (createdUser, w1) \<Rightarrow>
               (case (case inviteId data of None \<Rightarrow> None | Some i \<Rightarrow> if i = [] then None else Some i) of
                  Some iid \<Rightarrow>
                    (case find (\<lambda>i. invitation_id i = iid \<and> invitation_email i = email data \<and>
                                    invitation_status i = PENDING) (invitations w1) of
                       None \<Rightarrow>
                         (Returned (Inl \<lparr>error = Some ''Invalid or expired invitation.'',
                                        success = None\<rparr>), w1)
                     | Some invitation \<Rightarrow>
                         (case find (\<lambda>t. team_id t = invitation_teamId invitation) (teams w1) of
                            None \<Rightarrow> (Threw (Prisma (RequiredRelationMissing ''team'')), w1)
                          | Some invitation_team \<Rightarrow>
                              (let r = prisma_teamMember_create E (user_id createdUser)
                                         (invitation_teamId invitation)
                                         (invitation_role invitation) w1;
                                   w2 = prisma_invitation_update (invitation_id invitation) ACCEPTED
                                          (case r of Inl e \<Rightarrow> w1 | Inr w' \<Rightarrow> w')
                               in case r of
                                    Inl e \<Rightarrow> (Threw (Prisma e), w2)
                                  | Inr w' \<Rightarrow>
                                      (let (l, w3) = started (logActivity E ACCEPT_INVITATION None) w2
                                       in signUp_finish E createCheckoutSession createdUser
                                            invitation_team [l] formData w3))))
                | None \<Rightarrow>
                    (let (newTeam, w2) = prisma_team_create E ''Personal Account'' w1
                     in case prisma_teamMember_create E (user_id createdUser) (team_id newTeam)
                               ADMIN w2 of
                          Inl e \<Rightarrow> (Threw (Prisma e), w2)
                        | Inr w3 \<Rightarrow>
                            (let (l, w4) = started (logActivity E CREATE_TEAM None) w3
                             in signUp_finish E createCheckoutSession createdUser newTeam [l]
                                  formData w4)))))"

definition signUp ::
  "Env \<Rightarrow> SignUpData Schema \<Rightarrow> Checkout \<Rightarrow> ActionState \<Rightarrow> FormData \<Rightarrow> World \<Rightarrow>
   (ActionState + unit) outcome \<times> World" where
  "signUp E signUpSchema createCheckoutSession =
     validatedAction signUpSchema (signUp_action E createCheckoutSession)"

definition signOut :: "Env \<Rightarrow> World \<Rightarrow> unit outcome \<times> World" where
  "signOut E w =
     (case logActivity E SIGN_OUT None w of
        Inl e \<Rightarrow> (Threw e, w)
      | Inr w' \<Rightarrow> (Returned (), w'\<lparr>cookies := (cookies w')(''session'' := None)\<rparr>))"

section \<open>Sample inputs\<close>

text \<open>
  A concrete environment and a few stores on which the model is evaluated. The sample
  keyed hash concatenates its inputs; the sample Date conversions know the epoch and the
  day after it.
\<close>

definition testEnv :: Env where
  "testEnv =
     \<lparr>AUTH_SECRET = ''secret'',
      hmac = (\<lambda>a k (h, p). a @ k @ userId p @ teamId p @ expires p),
      toISOString = (\<lambda>t. if t = 86400000 then ''1970-01-02T00:00:00.000Z''
                          else ''1970-01-01T00:00:00.000Z''),
      parseDate = (\<lambda>s. if s = ''1970-01-02T00:00:00.000Z'' then Some 86400000
                        else if s = ''1970-01-01T00:00:00.000Z'' then Some 0 else None),
      bcrypt_hash = (\<lambda>p n. ''$2a$'' @ p),
      bcrypt_compare = (\<lambda>p h. h = ''$2a$'' @ p),
      cuid = (\<lambda>n. replicate (Suc n) CHR ''c'')\<rparr>"

definition emptyWorld :: World where
  "emptyWorld =
     \<lparr>cookies = Map.empty, now = 0, users = [], teams = [], teamMembers = [],
      activityLogs = [], invitations = [], console = [], idCounter = 0\<rparr>"

definition withCookie :: "token \<Rightarrow> World \<Rightarrow> World" where
  "withCookie tok w =
     w\<lparr>cookies := (cookies w)(''session'' \<mapsto>
         \<lparr>cookie_value = tok, cookie_expires = Some 86400000, cookie_httpOnly = True,
          cookie_secure = True, cookie_sameSite = ''lax''\<rparr>)\<rparr>"

definition aliceData :: UserData where
  "aliceData = \<lparr>userId = ''u1'', teamId = ''t1'', userRole = MEMBER\<rparr>"

definition adminData :: UserData where
  "adminData = \<lparr>userId = ''u1'', teamId = ''t1'', userRole = ADMIN\<rparr>"

definition aliceSession :: SessionData where
  "aliceSession =
     \<lparr>userId = ''u1'', teamId = ''t1'', userRole = MEMBER,
      expires = ''1970-01-02T00:00:00.000Z''\<rparr>"

definition alicePayload :: JWTPayload where
  "alicePayload =
     \<lparr>userId = ''u1'', teamId = ''t1'', userRole = MEMBER,
      expires = ''1970-01-02T00:00:00.000Z'', iat = Some 0, exp = Some 86400\<rparr>"

definition alice :: User where
  "alice =
     \<lparr>user_id = ''u1'', user_name = Some ''Alice'', user_email = ''alice@example.com'',
      user_passwordHash = Some ''$2a$pw'', user_githubId = None, user_googleId = None,
      user_createdAt = 0, user_updatedAt = 0, user_deletedAt = None\<rparr>"

definition team1 :: Team where
  "team1 =
     \<lparr>team_id = ''t1'', team_name = ''Personal Account'', team_stripeCustomerId = None,
      team_stripeSubscriptionId = None, team_stripeProductId = None, team_planName = None,
      team_subscriptionStatus = None, team_createdAt = 0, team_updatedAt = 0\<rparr>"

text \<open>A store with one user and one team, and a request that carries a session for them.\<close>

definition signedIn :: "User \<Rightarrow> World" where
  "signedIn u =
     withCookie (signToken testEnv 0 aliceSession) (emptyWorld\<lparr>users := [u], teams := [team1]\<rparr>)"

definition invitation1 :: Invitation where
  "invitation1 =
     \<lparr>invitation_id = ''i1'', invitation_teamId = ''t1'', invitation_invitedBy = ''u1'',
      invitation_email = ''bob@example.com'', invitation_role = MEMBER,
      invitation_status = PENDING, invitation_createdAt = 0\<rparr>"

definition invitedWorld :: World where
  "invitedWorld = emptyWorld\<lparr>users := [alice], teams := [team1], invitations := [invitation1]\<rparr>"

definition bobSignUp :: SignUpData where
  "bobSignUp =
     \<lparr>email = ''bob@example.com'', password = ''correct horse'', inviteId = Some ''i1''\<rparr>"

definition noCheckout :: Checkout where
  "noCheckout team priceId w = (Redirected ''/checkout'', w)"

section \<open>Properties of the token codec and the session functions\<close>

lemma verifyToken_cases:
  "verifyToken E t (Malformed s) = Inl JWSInvalid"
  "verifyToken E t (JWS h p sg) =
     (if alg h \<noteq> ''HS256'' then Inl JOSEAlgNotAllowed
      else if sg \<noteq> hmac E ''HS256'' (AUTH_SECRET E) (h, p) then Inl JWSSignatureVerificationFailed
      else if (case exp p of None \<Rightarrow> False | Some e \<Rightarrow> e \<le> t div 1000) then Inl JWTExpired
      else Inr (asSessionData p))"
  by (auto simp: verifyToken_def jwtVerify_def split: option.splits)

lemma verifyToken_signToken:
  "t' div 1000 < t div 1000 + 86400 \<Longrightarrow> verifyToken E t' (signToken E t s) = Inr s"
  by (simp add: signToken_def SignJWT_sign_def verifyToken_cases asSessionData_def)

lemma getSession_no_cookie: "cookies w ''session'' = None \<Longrightarrow> getSession E w = Inr None"
  by (simp add: getSession_def)

lemma getSession_emptyWorld: "getSession E emptyWorld = Inr None"
  by (simp add: getSession_no_cookie emptyWorld_def)

text \<open>\<open>getSession\<close> reads the cookie jar and the clock, nothing else.\<close>

lemma getSession_reads:
  "cookies v' = cookies v \<Longrightarrow> now v' = now v \<Longrightarrow> getSession E v' = getSession E v"
  by (auto simp: getSession_def split: option.splits)

text \<open>A cookie signed by \<open>signToken\<close> at \<open>t0\<close> resolves until its \<open>exp\<close> claim elapses.\<close>

lemma getSession_signed:
  "map_option cookie_value (cookies v ''session'') = Some (signToken E t0 s) \<Longrightarrow>
   now v div 1000 < t0 div 1000 + 86400 \<Longrightarrow> getSession E v = Inr (Some s)"
  by (auto simp: getSession_def verifyToken_signToken) (simp add: signToken_def SignJWT_sign_def)

lemma getSession_signedIn: "getSession testEnv (signedIn u) = Inr (Some aliceSession)"
  by (rule getSession_signed [where ?t0.0 = 0])
     (simp_all add: signedIn_def withCookie_def emptyWorld_def)

lemma find_alice:
  "find (\<lambda>u. user_id u = userId aliceSession) (users (signedIn alice)) = Some alice"
  by (simp add: signedIn_def withCookie_def emptyWorld_def alice_def aliceSession_def)

lemma find_team1:
  "find (\<lambda>t. team_id t = teamId aliceSession) (teams (signedIn alice)) = Some team1"
  by (simp add: signedIn_def withCookie_def emptyWorld_def team1_def aliceSession_def)

lemma getSession_setSession:
  "getSession E (setSession E u v) =
     Inr (Some \<lparr>userId = userId u, teamId = teamId u, userRole = userRole u,
               expires = toISOString E (now v + 24 * 60 * 60 * 1000)\<rparr>)"
  by (rule getSession_signed [where ?t0.0 = "now v"]) (simp_all add: setSession_def Let_def)

lemma setSession_frame:
  "now (setSession E u v) = now v \<and> users (setSession E u v) = users v
   \<and> teams (setSession E u v) = teams v \<and> teamMembers (setSession E u v) = teamMembers v"
  by (simp add: setSession_def Let_def)

lemma updateSession_existing:
  "getSession E w = Inr (Some s) \<Longrightarrow>
   updateSession E u w =
     Inr (w\<lparr>cookies := (cookies w)(''session'' \<mapsto>
            \<lparr>cookie_value = signToken E (now w)
               \<lparr>userId = userId u, teamId = teamId u, userRole = userRole u,
                expires = expires s\<rparr>,
             cookie_expires = parseDate E (expires s),
             cookie_httpOnly = True, cookie_secure = True, cookie_sameSite = ''lax''\<rparr>)\<rparr>)"
  by (simp add: updateSession_def Let_def)

subsection \<open>C1: what getSession does with a cookie that does not decode\<close>

text \<open>
  Claim C1 says that \<open>getSession\<close> never throws and returns absent whenever the stored
  token fails to decode. It does not: \<open>getSession\<close> awaits \<open>verifyToken\<close> with no handler,
  so a token with a corrupted signature, a token whose \<open>exp\<close> claim has elapsed and a text
  that is no token each make it throw the decode error.
\<close>

theorem getSession_decode_failure_throws:
  "getSession testEnv
     (withCookie (JWS \<lparr>alg = ''HS256''\<rparr> alicePayload ''HS256secretu1t11970-01-02T00:00:00.000Y'')
        emptyWorld)
   = Inl (JOSE JWSSignatureVerificationFailed)
 \<and> getSession testEnv
     (withCookie (signToken testEnv 0 aliceSession) (emptyWorld\<lparr>now := 86400000\<rparr>))
   = Inl (JOSE JWTExpired)
 \<and> getSession testEnv (withCookie (Malformed ''garbage'') emptyWorld) = Inl (JOSE JWSInvalid)"
  by (simp add: getSession_def withCookie_def emptyWorld_def verifyToken_cases testEnv_def
      alicePayload_def aliceSession_def signToken_def SignJWT_sign_def)

text \<open>
  Claim C1, amended: \<open>getSession\<close> returns absent when the session cookie is missing or
  empty. When the cookie holds a token it returns the session fields of the claim set if
  the header algorithm is HS256, the signature is the keyed hash under the secret and the
  \<open>exp\<close> claim has not elapsed; in every other case it throws the decode error to its
  caller: a text that is no token, another algorithm, a wrong signature, an elapsed
  \<open>exp\<close>.
\<close>

theorem getSession_outcomes:
  "(cookies w ''session'' = None \<longrightarrow> getSession E w = Inr None)
 \<and> (\<forall>c. cookies w ''session'' = Some c \<longrightarrow>
      (cookie_value c = Malformed [] \<longrightarrow> getSession E w = Inr None)
    \<and> (\<forall>s. cookie_value c = Malformed s \<and> s \<noteq> [] \<longrightarrow> getSession E w = Inl (JOSE JWSInvalid))
    \<and> (\<forall>h p sg. cookie_value c = JWS h p sg \<longrightarrow>
         getSession E w =
           (if alg h \<noteq> ''HS256'' then Inl (JOSE JOSEAlgNotAllowed)
            else if sg \<noteq> hmac E ''HS256'' (AUTH_SECRET E) (h, p)
              then Inl (JOSE JWSSignatureVerificationFailed)
            else if (case exp p of None \<Rightarrow> False | Some e \<Rightarrow> e \<le> now w div 1000)
              then Inl (JOSE JWTExpired)
            else Inr (Some (asSessionData p)))))"
  by (simp add: getSession_def verifyToken_cases)

theorem getSession_outcomes_witness:
  "cookies emptyWorld ''session'' = None \<and> getSession testEnv emptyWorld = Inr None
 \<and> getSession testEnv (withCookie (Malformed []) emptyWorld) = Inr None
 \<and> getSession testEnv (withCookie (JWS \<lparr>alg = ''HS256''\<rparr> alicePayload
        (hmac testEnv ''HS256'' ''secret'' (\<lparr>alg = ''HS256''\<rparr>, alicePayload))) emptyWorld)
     = Inr (Some aliceSession)
 \<and> getSession testEnv (withCookie (JWS \<lparr>alg = ''HS512''\<rparr> alicePayload
        (hmac testEnv ''HS512'' ''secret'' (\<lparr>alg = ''HS512''\<rparr>, alicePayload))) emptyWorld)
     = Inl (JOSE JOSEAlgNotAllowed)"
  using getSession_outcomes [of emptyWorld testEnv]
    getSession_outcomes [of "withCookie (Malformed []) emptyWorld" testEnv]
    getSession_outcomes [of "withCookie (JWS \<lparr>alg = ''HS256''\<rparr> alicePayload
        (hmac testEnv ''HS256'' ''secret'' (\<lparr>alg = ''HS256''\<rparr>, alicePayload))) emptyWorld" testEnv]
    getSession_outcomes [of "withCookie (JWS \<lparr>alg = ''HS512''\<rparr> alicePayload
        (hmac testEnv ''HS512'' ''secret'' (\<lparr>alg = ''HS512''\<rparr>, alicePayload))) emptyWorld" testEnv]
  by (simp add: withCookie_def emptyWorld_def testEnv_def alicePayload_def aliceSession_def
      asSessionData_def)

subsection \<open>C4: createSession, then getCurrentSession\<close>

text \<open>
  Claim C4: for every \<open>(userId, teamId, userRole)\<close>, \<open>setSession\<close> followed by \<open>getSession\<close>
  returns a payload with these three fields and with \<open>expires\<close> the instant 24 hours after
  the clock at issuance; the cookie carries the same instant. The read may happen at any
  clock \<open>t\<close> at which the token's own one-day \<open>exp\<close> claim has not elapsed, in particular
  at once.
\<close>

theorem createSession_then_getCurrentSession:
  "t div 1000 < now w div 1000 + 86400 \<Longrightarrow>
   getSession E ((setSession E u w)\<lparr>now := t\<rparr>) =
     Inr (Some \<lparr>userId = userId u, teamId = teamId u, userRole = userRole u,
               expires = toISOString E (now w + 24 * 60 * 60 * 1000)\<rparr>)
   \<and> map_option cookie_expires (cookies (setSession E u w) ''session'')
       = Some (Some (now w + 24 * 60 * 60 * 1000))"
  by (simp add: getSession_def setSession_def Let_def verifyToken_signToken signToken_def
      SignJWT_sign_def verifyToken_cases asSessionData_def)

theorem createSession_then_getCurrentSession_witness:
  "now emptyWorld div 1000 < now emptyWorld div 1000 + 86400
 \<and> getSession testEnv ((setSession testEnv aliceData emptyWorld)\<lparr>now := now emptyWorld\<rparr>)
     = Inr (Some \<lparr>userId = ''u1'', teamId = ''t1'', userRole = MEMBER,
                 expires = ''1970-01-02T00:00:00.000Z''\<rparr>)
 \<and> map_option cookie_expires (cookies (setSession testEnv aliceData emptyWorld) ''session'')
     = Some (Some 86400000)"
  using createSession_then_getCurrentSession [of "now emptyWorld" emptyWorld testEnv aliceData]
  by (simp add: emptyWorld_def testEnv_def aliceData_def)

subsection \<open>C3: refreshSession keeps the expiry\<close>

text \<open>
  Claim C3 says that without a session \<open>updateSession\<close> behaves as \<open>setSession\<close> with a
  fresh 24-hour lifetime. That holds when the cookie is missing, and fails when the
  cookie is there and does not decode: with a text that is no token, or with a token
  whose \<open>exp\<close> claim has elapsed, there is no session either, yet \<open>getSession\<close> throws and
  \<open>updateSession\<close> throws with it instead of writing a new session.
\<close>

theorem updateSession_undecodable_cookie_throws:
  "updateSession testEnv aliceData (withCookie (Malformed ''garbage'') emptyWorld)
     = Inl (JOSE JWSInvalid)
 \<and> updateSession testEnv aliceData
       (withCookie (signToken testEnv 0 aliceSession) (emptyWorld\<lparr>now := 86400000\<rparr>))
     = Inl (JOSE JWTExpired)
 \<and> updateSession testEnv aliceData
       (withCookie (signToken testEnv 0 aliceSession) (emptyWorld\<lparr>now := 86400000\<rparr>))
     \<noteq> Inr (setSession testEnv aliceData
            (withCookie (signToken testEnv 0 aliceSession) (emptyWorld\<lparr>now := 86400000\<rparr>)))"
  by (simp add: updateSession_def getSession_def withCookie_def emptyWorld_def verifyToken_cases
      testEnv_def aliceSession_def signToken_def SignJWT_sign_def)

text \<open>
  Claim C3, amended: when a session \<open>s\<close> exists, \<open>updateSession\<close> writes a cookie whose
  payload has the new user, team and role and the \<open>expires\<close> of \<open>s\<close>, and whose \<open>expires\<close>
  attribute is the Date read from that same string; a second refresh with other
  arguments, at any clock at which the first refresh's token still verifies, again keeps
  the \<open>expires\<close> of \<open>s\<close>. When the session cookie is missing or empty, \<open>updateSession\<close>
  is \<open>setSession\<close>: the session it writes resolves to the given user, team and role with
  \<open>expires\<close> the instant 24 hours after the clock, and the cookie expires at that instant.
  When the cookie does not decode, \<open>updateSession\<close> throws the decode error and writes
  nothing.
\<close>

theorem refreshSession_keeps_expires:
  "(getSession E w = Inr (Some s) \<longrightarrow>
      (\<exists>w1. updateSession E u1 w = Inr w1
         \<and> getSession E w1 =
             Inr (Some \<lparr>userId = userId u1, teamId = teamId u1, userRole = userRole u1,
                       expires = expires s\<rparr>)
         \<and> map_option cookie_expires (cookies w1 ''session'') = Some (parseDate E (expires s))
         \<and> (\<forall>t. t div 1000 < now w div 1000 + 86400 \<longrightarrow>
              (\<exists>w2. updateSession E u2 (w1\<lparr>now := t\<rparr>) = Inr w2
                 \<and> getSession E w2 =
                     Inr (Some \<lparr>userId = userId u2, teamId = teamId u2,
                               userRole = userRole u2, expires = expires s\<rparr>)
                 \<and> map_option cookie_expires (cookies w2 ''session'')
                     = Some (parseDate E (expires s))))))
 \<and> (getSession E w = Inr None \<longrightarrow>
      updateSession E u1 w = Inr (setSession E u1 w)
    \<and> getSession E (setSession E u1 w) =
        Inr (Some \<lparr>userId = userId u1, teamId = teamId u1, userRole = userRole u1,
                  expires = toISOString E (now w + 24 * 60 * 60 * 1000)\<rparr>)
    \<and> map_option cookie_expires (cookies (setSession E u1 w) ''session'')
        = Some (Some (now w + 24 * 60 * 60 * 1000)))
 \<and> (getSession E w = Inl e \<longrightarrow> updateSession E u1 w = Inl e)"
proof (intro conjI impI)
  assume s: "getSession E w = Inr (Some s)"
  let ?s1 = "\<lparr>userId = userId u1, teamId = teamId u1, userRole = userRole u1,
              expires = expires s\<rparr>"
  let ?w1 = "w\<lparr>cookies := (cookies w)(''session'' \<mapsto>
            \<lparr>cookie_value = signToken E (now w) ?s1,
             cookie_expires = parseDate E (expires s),
             cookie_httpOnly = True, cookie_secure = True, cookie_sameSite = ''lax''\<rparr>)\<rparr>"
  have u1: "updateSession E u1 w = Inr ?w1"
    using s by (rule updateSession_existing)
  have g1: "getSession E (?w1\<lparr>now := t\<rparr>) = Inr (Some ?s1)"
    if "t div 1000 < now w div 1000 + 86400" for t
    by (rule getSession_signed [where ?t0.0 = "now w"]) (use that in simp_all)
  have g1': "getSession E ?w1 = Inr (Some ?s1)"
    using g1 [of "now w"] by simp
  have two: "\<exists>w2. updateSession E u2 (?w1\<lparr>now := t\<rparr>) = Inr w2
                 \<and> getSession E w2 =
                     Inr (Some \<lparr>userId = userId u2, teamId = teamId u2,
                               userRole = userRole u2, expires = expires s\<rparr>)
                 \<and> map_option cookie_expires (cookies w2 ''session'')
                     = Some (parseDate E (expires s))"
    if t: "t div 1000 < now w div 1000 + 86400" for t
  proof -
    let ?v = "?w1\<lparr>now := t\<rparr>"
    let ?s2 = "\<lparr>userId = userId u2, teamId = teamId u2, userRole = userRole u2,
                expires = expires s\<rparr>"
    let ?w2 = "?v\<lparr>cookies := (cookies ?v)(''session'' \<mapsto>
            \<lparr>cookie_value = signToken E (now ?v) ?s2,
             cookie_expires = parseDate E (expires s),
             cookie_httpOnly = True, cookie_secure = True, cookie_sameSite = ''lax''\<rparr>)\<rparr>"
    have "updateSession E u2 ?v = Inr ?w2"
      using updateSession_existing [OF g1 [OF t], of u2] by simp
    moreover have "getSession E ?w2 = Inr (Some ?s2)"
      by (rule getSession_signed [where ?t0.0 = t]) simp_all
    ultimately show ?thesis by simp
  qed
  show "\<exists>w1. updateSession E u1 w = Inr w1
         \<and> getSession E w1 = Inr (Some ?s1)
         \<and> map_option cookie_expires (cookies w1 ''session'') = Some (parseDate E (expires s))
         \<and> (\<forall>t. t div 1000 < now w div 1000 + 86400 \<longrightarrow>
              (\<exists>w2. updateSession E u2 (w1\<lparr>now := t\<rparr>) = Inr w2
                 \<and> getSession E w2 =
                     Inr (Some \<lparr>userId = userId u2, teamId = teamId u2,
                               userRole = userRole u2, expires = expires s\<rparr>)
                 \<and> map_option cookie_expires (cookies w2 ''session'')
                     = Some (parseDate E (expires s))))"
    using u1 g1' two by (intro exI [of _ ?w1]) simp
next
  assume "getSession E w = Inr None"
  then show "updateSession E u1 w = Inr (setSession E u1 w)"
    by (simp add: updateSession_def)
next
  show "getSession E (setSession E u1 w) =
        Inr (Some \<lparr>userId = userId u1, teamId = teamId u1, userRole = userRole u1,
                  expires = toISOString E (now w + 24 * 60 * 60 * 1000)\<rparr>)"
    by (rule getSession_setSession)
next
  show "map_option cookie_expires (cookies (setSession E u1 w) ''session'')
        = Some (Some (now w + 24 * 60 * 60 * 1000))"
    by (simp add: setSession_def Let_def)
next
  assume "getSession E w = Inl e"
  then show "updateSession E u1 w = Inl e"
    by (simp add: updateSession_def)
qed

text \<open>
  A session created at the epoch expires on the day after it; a refresh to ADMIN and, an
  hour later, a refresh back to MEMBER both keep that day. A refresh without a cookie,
  at the epoch, writes a session that expires on the day after it.
\<close>

theorem refreshSession_keeps_expires_witness:
  "getSession testEnv (signedIn alice) = Inr (Some aliceSession)
 \<and> (\<exists>w1. updateSession testEnv adminData (signedIn alice) = Inr w1
       \<and> getSession testEnv w1 =
           Inr (Some \<lparr>userId = ''u1'', teamId = ''t1'', userRole = ADMIN,
                     expires = ''1970-01-02T00:00:00.000Z''\<rparr>)
       \<and> map_option cookie_expires (cookies w1 ''session'') = Some (Some 86400000)
       \<and> (\<exists>w2. updateSession testEnv aliceData (w1\<lparr>now := 3600000\<rparr>) = Inr w2
             \<and> getSession testEnv w2 =
                 Inr (Some \<lparr>userId = ''u1'', teamId = ''t1'', userRole = MEMBER,
                           expires = ''1970-01-02T00:00:00.000Z''\<rparr>)
             \<and> map_option cookie_expires (cookies w2 ''session'') = Some (Some 86400000)))
 \<and> getSession testEnv emptyWorld = Inr None
 \<and> updateSession testEnv adminData emptyWorld = Inr (setSession testEnv adminData emptyWorld)
 \<and> getSession testEnv (setSession testEnv adminData emptyWorld) =
     Inr (Some \<lparr>userId = ''u1'', teamId = ''t1'', userRole = ADMIN,
               expires = ''1970-01-02T00:00:00.000Z''\<rparr>)
 \<and> map_option cookie_expires (cookies (setSession testEnv adminData emptyWorld) ''session'')
     = Some (Some 86400000)"
proof -
  have a: "getSession testEnv (signedIn alice) = Inr (Some aliceSession)"
    by (rule getSession_signedIn)
  have b: "getSession testEnv emptyWorld = Inr None"
    by (rule getSession_emptyWorld)
  have t: "(3600000::int) div 1000 < now (signedIn alice) div 1000 + 86400"
    by (simp add: signedIn_def withCookie_def emptyWorld_def)
  have e: "expires aliceSession = ''1970-01-02T00:00:00.000Z''"
    "parseDate testEnv ''1970-01-02T00:00:00.000Z'' = Some 86400000"
    by (simp_all add: aliceSession_def testEnv_def)
  from refreshSession_keeps_expires [of testEnv "signedIn alice" aliceSession adminData aliceData] a
  obtain w1 where w1: "updateSession testEnv adminData (signedIn alice) = Inr w1"
    "getSession testEnv w1 =
       Inr (Some \<lparr>userId = userId adminData, teamId = teamId adminData,
                 userRole = userRole adminData, expires = expires aliceSession\<rparr>)"
    "map_option cookie_expires (cookies w1 ''session'')
       = Some (parseDate testEnv (expires aliceSession))"
    "\<forall>t. t div 1000 < now (signedIn alice) div 1000 + 86400 \<longrightarrow>
       (\<exists>w2. updateSession testEnv aliceData (w1\<lparr>now := t\<rparr>) = Inr w2
          \<and> getSession testEnv w2 =
              Inr (Some \<lparr>userId = userId aliceData, teamId = teamId aliceData,
                        userRole = userRole aliceData, expires = expires aliceSession\<rparr>)
          \<and> map_option cookie_expires (cookies w2 ''session'')
              = Some (parseDate testEnv (expires aliceSession)))"
    by blast
  from w1(4) t obtain w2 where
    w2: "updateSession testEnv aliceData (w1\<lparr>now := 3600000\<rparr>) = Inr w2"
    "getSession testEnv w2 =
       Inr (Some \<lparr>userId = userId aliceData, teamId = teamId aliceData,
                 userRole = userRole aliceData, expires = expires aliceSession\<rparr>)"
    "map_option cookie_expires (cookies w2 ''session'')
       = Some (parseDate testEnv (expires aliceSession))"
    by blast
  have c: "updateSession testEnv adminData emptyWorld
      = Inr (setSession testEnv adminData emptyWorld)"
    "getSession testEnv (setSession testEnv adminData emptyWorld) =
       Inr (Some \<lparr>userId = ''u1'', teamId = ''t1'', userRole = ADMIN,
                 expires = ''1970-01-02T00:00:00.000Z''\<rparr>)"
    "map_option cookie_expires (cookies (setSession testEnv adminData emptyWorld) ''session'')
       = Some (Some 86400000)"
    using refreshSession_keeps_expires [of testEnv emptyWorld aliceSession adminData aliceData] b
    by (simp_all add: adminData_def emptyWorld_def testEnv_def)
  show ?thesis
    using a b c w1(1,2,3) w2 e by (auto simp: adminData_def aliceData_def)
qed

subsection \<open>C8: the codec is pinned to HS256\<close>

text \<open>
  Claim C8: \<open>signToken\<close> always emits a header that declares HS256 and signs under HS256
  with the secret; \<open>verifyToken\<close> accepts a token only if its header declares HS256 and its
  signature is the HS256 keyed hash under the secret; a token whose header declares any
  other algorithm is refused as such, whatever its signature.
\<close>

theorem codec_algorithm_pinned:
  "(\<exists>p. signToken E t s =
           JWS \<lparr>alg = ''HS256''\<rparr> p
             (hmac E ''HS256'' (AUTH_SECRET E) (\<lparr>alg = ''HS256''\<rparr>, p)))
 \<and> (verifyToken E t' tok = Inr s' \<longrightarrow>
      (\<exists>h p. tok = JWS h p (hmac E ''HS256'' (AUTH_SECRET E) (h, p)) \<and> alg h = ''HS256''))
 \<and> (alg h \<noteq> ''HS256'' \<longrightarrow> verifyToken E t' (JWS h p sg) = Inl JOSEAlgNotAllowed)"
  by (cases tok) (auto simp: signToken_def SignJWT_sign_def verifyToken_cases split: if_splits)

theorem codec_algorithm_pinned_witness:
  "verifyToken testEnv 0 (signToken testEnv 0 aliceSession) = Inr aliceSession
 \<and> signToken testEnv 0 aliceSession =
     JWS \<lparr>alg = ''HS256''\<rparr> alicePayload ''HS256secretu1t11970-01-02T00:00:00.000Z''
 \<and> alg \<lparr>alg = ''HS512''\<rparr> \<noteq> ''HS256''
 \<and> verifyToken testEnv 0 (JWS \<lparr>alg = ''HS512''\<rparr> alicePayload
        (hmac testEnv ''HS512'' ''secret'' (\<lparr>alg = ''HS512''\<rparr>, alicePayload)))
     = Inl JOSEAlgNotAllowed
 \<and> verifyToken testEnv 0 (JWS \<lparr>alg = ''none''\<rparr> alicePayload []) = Inl JOSEAlgNotAllowed"
  using codec_algorithm_pinned [of testEnv 0 aliceSession 0 "signToken testEnv 0 aliceSession"
      aliceSession "\<lparr>alg = ''HS512''\<rparr>" alicePayload
      "hmac testEnv ''HS512'' ''secret'' (\<lparr>alg = ''HS512''\<rparr>, alicePayload)"]
    codec_algorithm_pinned [of testEnv 0 aliceSession 0 "signToken testEnv 0 aliceSession"
      aliceSession "\<lparr>alg = ''none''\<rparr>" alicePayload "[]"]
    verifyToken_signToken [of 0 0 testEnv aliceSession]
  by (simp add: signToken_def SignJWT_sign_def testEnv_def aliceSession_def alicePayload_def)

section \<open>Properties of the action guards\<close>

subsection \<open>C7: the validate-only guard\<close>

text \<open>
  Claim C7: when the parse fails, with first issue message \<open>m\<close>, \<open>validatedAction\<close>
  returns \<open>{error: m}\<close> and leaves the store as it was, whatever the wrapped action is: it
  does not throw and does not run the action. When the parse succeeds with data \<open>d\<close>, the
  result is that of the action on \<open>d\<close> and the submitted form.
\<close>

theorem validatedAction_outcomes:
  "(schema (Object_fromEntries formData) = Inl (m # ms) \<longrightarrow>
      validatedAction schema action prevState formData w =
        (Returned (Inl \<lparr>error = Some m, success = None\<rparr>), w))
 \<and> (schema (Object_fromEntries formData) = Inr d \<longrightarrow>
      validatedAction schema action prevState formData w = action d formData w)"
  by (simp add: validatedAction_def)

theorem validatedAction_outcomes_witness:
  "validatedAction (\<lambda>obj. if obj ''email'' = Some ''alice'' then Inl [''Invalid email'', ''Required'']
                          else Inr (obj ''email''))
     (\<lambda>d fd w. (Returned (Inr (d, fd)), w)) \<lparr>error = None, success = None\<rparr>
     [(''email'', ''alice'')] emptyWorld
   = (Returned (Inl \<lparr>error = Some ''Invalid email'', success = None\<rparr>), emptyWorld)
 \<and> validatedAction (\<lambda>obj. if obj ''email'' = Some ''alice'' then Inl [''Invalid email'', ''Required'']
                          else Inr (obj ''email''))
     (\<lambda>d fd w. (Returned (Inr (d, fd)), w)) \<lparr>error = None, success = None\<rparr>
     [(''email'', ''a@b.c'')] emptyWorld
   = (Returned (Inr (Some ''a@b.c'', [(''email'', ''a@b.c'')])), emptyWorld)"
  using validatedAction_outcomes [where
      schema = "\<lambda>obj. if obj ''email'' = Some ''alice'' then Inl [''Invalid email'', ''Required'']
                          else Inr (obj ''email'')"
      and formData = "[(''email'', ''alice'')]" and m = "''Invalid email''" and ms = "[''Required'']"
      and action = "\<lambda>d fd w. (Returned (Inr (d, fd)), w)"
      and prevState = "\<lparr>error = None, success = None\<rparr>" and w = emptyWorld]
    validatedAction_outcomes [where
      schema = "\<lambda>obj. if obj ''email'' = Some ''alice'' then Inl [''Invalid email'', ''Required'']
                          else Inr (obj ''email'')"
      and formData = "[(''email'', ''a@b.c'')]" and d = "Some ''a@b.c''"
      and action = "\<lambda>d fd w. (Returned (Inr (d, fd)), w)"
      and prevState = "\<lparr>error = None, success = None\<rparr>" and w = emptyWorld]
  by (simp add: Object_fromEntries_def)

subsection \<open>C5: the guard that validates and requires a user\<close>

text \<open>
  Claim C5: \<open>validatedActionWithUser\<close> throws, without consulting the schema or the
  action and without touching the store, when no session resolves (\<open>getSession\<close> throws
  or returns absent) and when no user row has the session's \<open>userId\<close>. Once both have
  succeeded the form is parsed: a failed parse returns \<open>{error: m}\<close> for its first message
  \<open>m\<close>, a successful one runs the action on the parsed data, the form and the user.
\<close>

theorem validatedActionWithUser_outcomes:
  "(getSession E w = Inl e \<longrightarrow>
      validatedActionWithUser E schema action prevState formData w = (Threw e, w))
 \<and> (getSession E w = Inr None \<longrightarrow>
      validatedActionWithUser E schema action prevState formData w =
        (Threw (Error ''User is not authenticated''), w))
 \<and> (getSession E w = Inr (Some s) \<longrightarrow>
      (find (\<lambda>u. user_id u = userId s) (users w) = None \<longrightarrow>
         validatedActionWithUser E schema action prevState formData w =
           (Threw (Error ''User not found''), w))
    \<and> (\<forall>user. find (\<lambda>u. user_id u = userId s) (users w) = Some user \<longrightarrow>
          (\<forall>m ms. schema (Object_fromEntries formData) = Inl (m # ms) \<longrightarrow>
             validatedActionWithUser E schema action prevState formData w =
               (Returned (Inl \<lparr>error = Some m, success = None\<rparr>), w))
        \<and> (\<forall>d. schema (Object_fromEntries formData) = Inr d \<longrightarrow>
             validatedActionWithUser E schema action prevState formData w =
               action d formData user w)))"
  by (simp add: validatedActionWithUser_def)

theorem validatedActionWithUser_outcomes_witness:
  "getSession testEnv emptyWorld = Inr None
 \<and> validatedActionWithUser testEnv (\<lambda>obj. Inr ()) (\<lambda>d fd user w. (Returned (Inr (user_id user)), w))
      \<lparr>error = None, success = None\<rparr> [] emptyWorld
    = (Threw (Error ''User is not authenticated''), emptyWorld)
 \<and> getSession testEnv (signedIn alice) = Inr (Some aliceSession)
 \<and> find (\<lambda>u. user_id u = userId aliceSession) (users (signedIn alice)) = Some alice
 \<and> validatedActionWithUser testEnv (\<lambda>obj. Inl [''Name is required'', ''Invalid email address''])
      (\<lambda>d fd user w. (Returned (Inr (user_id user)), w))
      \<lparr>error = None, success = None\<rparr> [] (signedIn alice)
    = (Returned (Inl \<lparr>error = Some ''Name is required'', success = None\<rparr>), signedIn alice)
 \<and> validatedActionWithUser testEnv (\<lambda>obj. Inr ()) (\<lambda>d fd user w. (Returned (Inr (user_id user)), w))
      \<lparr>error = None, success = None\<rparr> [] (signedIn alice)
    = (Returned (Inr ''u1''), signedIn alice)
 \<and> getSession testEnv (withCookie (signToken testEnv 0 aliceSession) emptyWorld)
    = Inr (Some aliceSession)
 \<and> validatedActionWithUser testEnv (\<lambda>obj. Inr ()) (\<lambda>d fd user w. (Returned (Inr (user_id user)), w))
      \<lparr>error = None, success = None\<rparr> [] (withCookie (signToken testEnv 0 aliceSession) emptyWorld)
    = (Threw (Error ''User not found''), withCookie (signToken testEnv 0 aliceSession) emptyWorld)"
proof -
  have g: "getSession testEnv (withCookie (signToken testEnv 0 aliceSession) emptyWorld)
      = Inr (Some aliceSession)"
    by (rule getSession_signed [where ?t0.0 = 0]) (simp_all add: withCookie_def emptyWorld_def)
  have n: "find (\<lambda>u. user_id u = userId aliceSession)
      (users (withCookie (signToken testEnv 0 aliceSession) emptyWorld)) = None"
    by (simp add: withCookie_def emptyWorld_def)
  show ?thesis
    using validatedActionWithUser_outcomes [where E = testEnv and w = emptyWorld
        and schema = "\<lambda>obj. Inr ()" and formData = "[]"
        and action = "\<lambda>d fd user w. (Returned (Inr (user_id user)), w)"
        and prevState = "\<lparr>error = None, success = None\<rparr>"]
      validatedActionWithUser_outcomes [where E = testEnv and w = "signedIn alice"
        and s = aliceSession
        and schema = "\<lambda>obj. Inl [''Name is required'', ''Invalid email address'']"
        and formData = "[]"
        and action = "\<lambda>d fd user w. (Returned (Inr (user_id user)), w)"
        and prevState = "\<lparr>error = None, success = None\<rparr>"]
      validatedActionWithUser_outcomes [where E = testEnv and w = "signedIn alice"
        and s = aliceSession and schema = "\<lambda>obj. Inr ()" and formData = "[]"
        and action = "\<lambda>d fd user w. (Returned (Inr (user_id user)), w)"
        and prevState = "\<lparr>error = None, success = None\<rparr>"]
      validatedActionWithUser_outcomes [where E = testEnv
        and w = "withCookie (signToken testEnv 0 aliceSession) emptyWorld"
        and s = aliceSession and schema = "\<lambda>obj. Inr ()" and formData = "[]"
        and action = "\<lambda>d fd user w. (Returned (Inr (user_id user)), w)"
        and prevState = "\<lparr>error = None, success = None\<rparr>"]
      getSession_emptyWorld [of testEnv] getSession_signedIn [of alice] find_alice g n
    by (simp add: alice_def)
qed

subsection \<open>C6: the guard that requires the full context\<close>

text \<open>
  Claim C6 says that for every input \<open>withAuth\<close> either redirects to \<open>/sign-in\<close>, the
  session being absent, or fetches the user and the team. A request whose cookie does
  not decode is a third case: \<open>getSession\<close> throws and the guard throws with it, with no
  redirect and no lookup, also when the user and the team of the token are in the store.
\<close>

theorem withAuth_undecodable_cookie_throws:
  "withAuth testEnv (\<lambda>fd a w. (Returned (user_id (auth_user a)), w)) []
     (withCookie (Malformed ''garbage'') (emptyWorld\<lparr>users := [alice], teams := [team1]\<rparr>))
   = (Threw (JOSE JWSInvalid),
      withCookie (Malformed ''garbage'') (emptyWorld\<lparr>users := [alice], teams := [team1]\<rparr>))
 \<and> withAuth testEnv (\<lambda>fd a w. (Returned (user_id (auth_user a)), w)) []
     ((signedIn alice)\<lparr>now := 86400000\<rparr>)
   = (Threw (JOSE JWTExpired), (signedIn alice)\<lparr>now := 86400000\<rparr>)"
  by (simp add: withAuth_def getSession_def signedIn_def withCookie_def emptyWorld_def
      verifyToken_cases testEnv_def aliceSession_def signToken_def SignJWT_sign_def)

text \<open>
  Claim C6, amended: \<open>withAuth\<close> redirects to \<open>/sign-in\<close>, whatever the wrapped action is,
  when the session cookie is missing or empty. When a session \<open>s\<close> resolves it looks up
  the user and the team of \<open>s\<close>: if either lookup finds nothing, also when the user is
  found and the team is not, it redirects to \<open>/sign-in\<close>; only with both rows does it run
  the action, on the form and on the user, the team and the role of \<open>s\<close>. When the cookie
  does not decode, the guard throws the decode error; it does not redirect, look anything
  up or run the action.
\<close>

theorem withAuth_outcomes:
  "(getSession E w = Inr None \<longrightarrow> withAuth E action formData w = (Redirected ''/sign-in'', w))
 \<and> (getSession E w = Inr (Some s) \<longrightarrow>
      (find (\<lambda>u. user_id u = userId s) (users w) = None
         \<or> find (\<lambda>t. team_id t = teamId s) (teams w) = None \<longrightarrow>
       withAuth E action formData w = (Redirected ''/sign-in'', w))
    \<and> (\<forall>user team.
          find (\<lambda>u. user_id u = userId s) (users w) = Some user
          \<and> find (\<lambda>t. team_id t = teamId s) (teams w) = Some team \<longrightarrow>
          withAuth E action formData w =
            action formData
              \<lparr>auth_user = user, auth_userRole = userRole s, auth_team = team\<rparr> w))
 \<and> (getSession E w = Inl e \<longrightarrow> withAuth E action formData w = (Threw e, w))"
  by (auto simp: withAuth_def split: option.splits)

theorem withAuth_outcomes_witness:
  "getSession testEnv emptyWorld = Inr None
 \<and> withAuth testEnv (\<lambda>fd a w. (Returned (team_id (auth_team a), auth_userRole a), w)) [] emptyWorld
    = (Redirected ''/sign-in'', emptyWorld)
 \<and> getSession testEnv (signedIn alice) = Inr (Some aliceSession)
 \<and> find (\<lambda>u. user_id u = userId aliceSession) (users (signedIn alice)) = Some alice
 \<and> find (\<lambda>t. team_id t = teamId aliceSession) (teams (signedIn alice)) = Some team1
 \<and> withAuth testEnv (\<lambda>fd a w. (Returned (team_id (auth_team a), auth_userRole a), w)) []
      (signedIn alice)
    = (Returned (''t1'', MEMBER), signedIn alice)
 \<and> find (\<lambda>t. team_id t = teamId aliceSession) (teams ((signedIn alice)\<lparr>teams := []\<rparr>)) = None
 \<and> withAuth testEnv (\<lambda>fd a w. (Returned (team_id (auth_team a), auth_userRole a), w)) []
      ((signedIn alice)\<lparr>teams := []\<rparr>)
    = (Redirected ''/sign-in'', (signedIn alice)\<lparr>teams := []\<rparr>)"
proof -
  have g: "getSession testEnv ((signedIn alice)\<lparr>teams := []\<rparr>) = Inr (Some aliceSession)"
    using getSession_reads [of "(signedIn alice)\<lparr>teams := []\<rparr>" "signedIn alice" testEnv]
      getSession_signedIn [of alice] by simp
  show ?thesis
    using withAuth_outcomes [where E = testEnv and w = emptyWorld and formData = "[]"
        and action = "\<lambda>fd a w. (Returned (team_id (auth_team a), auth_userRole a), w)"]
      withAuth_outcomes [where E = testEnv and w = "signedIn alice" and s = aliceSession
        and formData = "[]"
        and action = "\<lambda>fd a w. (Returned (team_id (auth_team a), auth_userRole a), w)"]
      withAuth_outcomes [where E = testEnv and w = "(signedIn alice)\<lparr>teams := []\<rparr>"
        and s = aliceSession and formData = "[]"
        and action = "\<lambda>fd a w. (Returned (team_id (auth_team a), auth_userRole a), w)"]
      getSession_emptyWorld [of testEnv] getSession_signedIn [of alice] find_alice find_team1 g
    by (simp add: team1_def aliceSession_def)
qed

subsection \<open>C2: soft-deleted users and the guards\<close>

text \<open>
  Claim C2 says that the user lookup of each guard excludes soft-deleted rows, so that a
  valid session of a soft-deleted user never reaches the wrapped action. The lookups of
  \<open>validatedActionWithUser\<close> and \<open>withAuth\<close> select on the id alone: with a store whose
  only user carries a deletion timestamp and a request that carries a valid session for
  that user, both guards run the wrapped action, and hand it the deleted row.
\<close>

theorem guards_reach_action_for_soft_deleted_user:
  "validatedActionWithUser testEnv (\<lambda>obj. Inr ())
     (\<lambda>d fd user w. (Returned (Inr (user_id user, user_deletedAt user)), w))
     \<lparr>error = None, success = None\<rparr> [] (signedIn (alice\<lparr>user_deletedAt := Some 5\<rparr>))
   = (Returned (Inr (''u1'', Some 5)), signedIn (alice\<lparr>user_deletedAt := Some 5\<rparr>))
 \<and> withAuth testEnv
     (\<lambda>fd a w. (Returned (user_id (auth_user a), user_deletedAt (auth_user a)), w))
     [] (signedIn (alice\<lparr>user_deletedAt := Some 5\<rparr>))
   = (Returned (''u1'', Some 5), signedIn (alice\<lparr>user_deletedAt := Some 5\<rparr>))"
  by (simp add: validatedActionWithUser_def withAuth_def getSession_signedIn aliceSession_def)
     (simp add: signedIn_def withCookie_def emptyWorld_def alice_def team1_def)

section \<open>Properties of the sign-out and sign-up actions\<close>

lemma logActivity_cases:
  "getSession E w = Inl e \<Longrightarrow> logActivity E a ip w = Inl e"
  "getSession E w = Inr None \<Longrightarrow>
     logActivity E a ip w = Inr (w\<lparr>console := console w @ [''No session data.'']\<rparr>)"
  "getSession E w = Inr (Some s) \<Longrightarrow> teamId s \<in> team_id ` set (teams w) \<Longrightarrow>
     userId s \<in> user_id ` set (users w) \<Longrightarrow>
     logActivity E a ip w =
       Inr (w\<lparr>activityLogs := activityLogs w @
                [\<lparr>log_id = cuid E (idCounter w), log_teamId = teamId s,
                  log_userId = Some (userId s), log_action = a,
                  log_ipAddress = Some (case ip of None \<Rightarrow> [] | Some x \<Rightarrow> x),
                  log_createdAt = now w\<rparr>],
              idCounter := Suc (idCounter w)\<rparr>)"
  by (simp_all add: logActivity_def prisma_activityLog_create_def)

text \<open>\<open>logActivity\<close> writes to the activity log, the id counter and the console only.\<close>

lemma logActivity_frame:
  "logActivity E a ip v = Inr v' \<Longrightarrow>
   cookies v' = cookies v \<and> now v' = now v \<and> users v' = users v \<and> teams v' = teams v
   \<and> teamMembers v' = teamMembers v \<and> invitations v' = invitations v"
  by (auto simp: logActivity_def prisma_activityLog_create_def
           split: sum.splits option.splits if_splits)

lemma started_logActivity_frame:
  "started (logActivity E a ip) v = (l, v') \<Longrightarrow>
   cookies v' = cookies v \<and> now v' = now v \<and> users v' = users v \<and> teams v' = teams v
   \<and> teamMembers v' = teamMembers v \<and> invitations v' = invitations v"
  by (auto simp: started_def split: sum.splits dest: logActivity_frame)

lemma find_None_email:
  "e \<notin> user_email ` set us \<Longrightarrow>
   find (\<lambda>u. user_email u = e \<and> user_deletedAt u = None) us = None"
  by (auto simp: find_None_iff)

lemma find_Some_team_id:
  "find (\<lambda>t. team_id t = i) ts = Some team \<Longrightarrow> team_id team = i \<and> i \<in> team_id ` set ts"
  by (auto simp: find_Some_iff)

lemma Promise_all_two: "Promise_all [l, Inr ()] = l"
  by (cases l) simp_all

subsection \<open>C9: sign-out\<close>

text \<open>
  Claim C9 says that sign-out appends exactly one \<open>SIGN_OUT\<close> row for every client state,
  also when no session existed. It does not: \<open>logActivity\<close> returns early when
  \<open>getSession\<close> yields nothing, so a sign-out without a session cookie writes
  \<open>No session data.\<close> to the console and leaves the activity log as it was.
\<close>

theorem signOut_without_session_logs_nothing:
  "signOut testEnv emptyWorld = (Returned (), emptyWorld\<lparr>console := [''No session data.'']\<rparr>)
 \<and> activityLogs (snd (signOut testEnv emptyWorld)) = activityLogs emptyWorld"
  by (simp add: signOut_def logActivity_cases(2) getSession_no_cookie emptyWorld_def)

text \<open>
  Claim C9, amended: when no session exists, sign-out appends no log row (it reports
  \<open>No session data.\<close> on the console) and clears the session cookie, which is a no-op on
  the cookie. When a session exists whose team and user are rows of the store, sign-out
  appends exactly one \<open>SIGN_OUT\<close> row, with the team and user of the session and an empty
  address, and clears the session cookie.
\<close>

theorem signOut_outcomes:
  "(getSession E w = Inr None \<longrightarrow>
      signOut E w =
        (Returned (), w\<lparr>console := console w @ [''No session data.''],
                        cookies := (cookies w)(''session'' := None)\<rparr>))
 \<and> (getSession E w = Inr (Some s) \<and> teamId s \<in> team_id ` set (teams w)
       \<and> userId s \<in> user_id ` set (users w) \<longrightarrow>
      signOut E w =
        (Returned (),
         w\<lparr>activityLogs := activityLogs w @
              [\<lparr>log_id = cuid E (idCounter w), log_teamId = teamId s,
                log_userId = Some (userId s), log_action = SIGN_OUT,
                log_ipAddress = Some [], log_createdAt = now w\<rparr>],
            idCounter := Suc (idCounter w),
            cookies := (cookies w)(''session'' := None)\<rparr>))"
  by (simp add: signOut_def logActivity_cases)

theorem signOut_outcomes_witness:
  "getSession testEnv emptyWorld = Inr None
 \<and> signOut testEnv emptyWorld = (Returned (), emptyWorld\<lparr>console := [''No session data.'']\<rparr>)
 \<and> getSession testEnv (signedIn alice) = Inr (Some aliceSession)
 \<and> teamId aliceSession \<in> team_id ` set (teams (signedIn alice))
 \<and> userId aliceSession \<in> user_id ` set (users (signedIn alice))
 \<and> cookies (snd (signOut testEnv (signedIn alice))) ''session'' = None
 \<and> activityLogs (snd (signOut testEnv (signedIn alice))) =
      [\<lparr>log_id = ''c'', log_teamId = ''t1'', log_userId = Some ''u1'', log_action = SIGN_OUT,
        log_ipAddress = Some [], log_createdAt = 0\<rparr>]"
  using signOut_outcomes [of testEnv emptyWorld aliceSession]
    signOut_outcomes [of testEnv "signedIn alice" aliceSession]
    getSession_emptyWorld [of testEnv] getSession_signedIn [of alice]
  by (simp add: signedIn_def withCookie_def emptyWorld_def alice_def team1_def aliceSession_def
      testEnv_def)

subsection \<open>C10: the roles after a sign-up by invitation\<close>

text \<open>The end of \<open>signUp\<close>: the session it writes, and how the action ends.\<close>

lemma signUp_finish_session:
  assumes user: "user_id createdUser \<in> user_id ` set (users v)"
      and team: "team_id team \<in> team_id ` set (teams v)"
  shows "\<exists>v'. teamMembers v' = teamMembers v
           \<and> getSession E v' =
               Inr (Some \<lparr>userId = user_id createdUser, teamId = team_id team, userRole = ADMIN,
                         expires = toISOString E (now v + 24 * 60 * 60 * 1000)\<rparr>)
           \<and> ((\<exists>e. signUp_finish E checkout createdUser team [l] formData v = (Threw e, v'))
              \<or> signUp_finish E checkout createdUser team [l] formData v =
                  (if formData_get formData ''redirect'' = Some ''checkout''
                   then checkout team (formData_get formData ''priceId'') v'
                   else (Redirected ''/dashboard'', v')))"
proof -
  let ?u = "\<lparr>userId = user_id createdUser, teamId = team_id team, userRole = ADMIN\<rparr>"
  let ?s = "\<lparr>userId = user_id createdUser, teamId = team_id team, userRole = ADMIN,
             expires = toISOString E (now v + 24 * 60 * 60 * 1000)\<rparr>"
  let ?v1 = "setSession E ?u v"
  have g1: "getSession E ?v1 = Inr (Some ?s)"
    using getSession_setSession [of E ?u v] by simp
  obtain v2 where log: "logActivity E EMAIL_SIGN_UP None ?v1 = Inr v2"
    using logActivity_cases(3) [OF g1, of EMAIL_SIGN_UP None] user team
    by (simp add: setSession_frame)
  have frame: "cookies v2 = cookies ?v1" "now v2 = now ?v1" "teamMembers v2 = teamMembers ?v1"
    using logActivity_frame [OF log] by simp_all
  have g2: "getSession E v2 = Inr (Some ?s)"
    using g1 getSession_reads [OF frame(1) frame(2), of E] by simp
  have fin: "signUp_finish E checkout createdUser team [l] formData v =
      (case l of
         Inl e \<Rightarrow> (Threw e, v2)
       | Inr u \<Rightarrow>
           if formData_get formData ''redirect'' = Some ''checkout''
           then checkout team (formData_get formData ''priceId'') v2
           else (Redirected ''/dashboard'', v2))"
    by (simp add: signUp_finish_def started_def log Promise_all_two)
  have "teamMembers v2 = teamMembers v"
    using frame by (simp add: setSession_frame)
  moreover have "(\<exists>e. signUp_finish E checkout createdUser team [l] formData v = (Threw e, v2))
              \<or> signUp_finish E checkout createdUser team [l] formData v =
                  (if formData_get formData ''redirect'' = Some ''checkout''
                   then checkout team (formData_get formData ''priceId'') v2
                   else (Redirected ''/dashboard'', v2))"
    using fin by (cases l) auto
  ultimately show ?thesis
    using g2 by blast
qed

text \<open>
  Claim C10: a sign-up whose form parses, whose email is not taken and whose invitation
  is found pending, with its team in the store, creates the \<open>TeamMember\<close> row with the
  role of the invitation and writes a session whose \<open>userRole\<close> is \<open>ADMIN\<close>, whatever that
  role is; the action then ends in the checkout, in a redirect to \<open>/dashboard\<close>, or in the
  rejection of the activity log started before the session was written. For an
  invitation with role \<open>MEMBER\<close> the session and the stored membership disagree.
\<close>

theorem signUp_invited_roles:
  assumes parse: "signUpSchema (Object_fromEntries formData) = Inr d"
      and fresh: "email d \<notin> user_email ` set (users w)"
      and invite: "inviteId d = Some iid" "iid \<noteq> []"
      and inv: "find (\<lambda>i. invitation_id i = iid \<and> invitation_email i = email d \<and>
                          invitation_status i = PENDING) (invitations w) = Some invitation"
      and team: "find (\<lambda>t. team_id t = invitation_teamId invitation) (teams w) = Some team"
  shows "\<exists>w'.
           \<lparr>member_id = cuid E (Suc (idCounter w)), member_userId = cuid E (idCounter w),
            member_teamId = invitation_teamId invitation,
            member_role = invitation_role invitation, member_createdAt = now w\<rparr>
             \<in> set (teamMembers w')
         \<and> getSession E w' =
             Inr (Some \<lparr>userId = cuid E (idCounter w), teamId = invitation_teamId invitation,
                       userRole = ADMIN,
                       expires = toISOString E (now w + 24 * 60 * 60 * 1000)\<rparr>)
         \<and> ((\<exists>e. signUp E signUpSchema checkout prevState formData w = (Threw e, w'))
            \<or> signUp E signUpSchema checkout prevState formData w =
                (if formData_get formData ''redirect'' = Some ''checkout''
                 then checkout team (formData_get formData ''priceId'') w'
                 else (Redirected ''/dashboard'', w')))"
proof -
  let ?createdUser = "\<lparr>user_id = cuid E (idCounter w), user_name = None, user_email = email d,
       user_passwordHash = Some (hashPassword E (password d)), user_githubId = None,
       user_googleId = None, user_createdAt = now w, user_updatedAt = now w,
       user_deletedAt = None\<rparr>"
  let ?w1 = "w\<lparr>users := users w @ [?createdUser], idCounter := Suc (idCounter w)\<rparr>"
  let ?row = "\<lparr>member_id = cuid E (Suc (idCounter w)), member_userId = cuid E (idCounter w),
       member_teamId = invitation_teamId invitation,
       member_role = invitation_role invitation, member_createdAt = now w\<rparr>"
  let ?w2 = "?w1\<lparr>teamMembers := teamMembers ?w1 @ [?row], idCounter := Suc (idCounter ?w1)\<rparr>"
  let ?w3 = "prisma_invitation_update (invitation_id invitation) ACCEPTED ?w2"
  have tid: "team_id team = invitation_teamId invitation"
    and tin: "invitation_teamId invitation \<in> team_id ` set (teams w)"
    using find_Some_team_id [OF team] by simp_all
  have create: "prisma_user_create E (email d) (hashPassword E (password d)) w
      = Inr (?createdUser, ?w1)"
    using fresh by (simp add: prisma_user_create_def Let_def)
  have member: "prisma_teamMember_create E (user_id ?createdUser)
      (invitation_teamId invitation) (invitation_role invitation) ?w1 = Inr ?w2"
    using tin by (simp add: prisma_teamMember_create_def)
  obtain l w4 where l: "started (logActivity E ACCEPT_INVITATION None) ?w3 = (l, w4)"
    by (cases "started (logActivity E ACCEPT_INVITATION None) ?w3")
  have frame: "users w4 = users ?w3" "teams w4 = teams ?w3" "teamMembers w4 = teamMembers ?w3"
    "now w4 = now ?w3"
    using started_logActivity_frame [OF l] by simp_all
  have run: "signUp E signUpSchema checkout prevState formData w =
      signUp_finish E checkout ?createdUser team [l] formData w4"
    using parse invite inv team create member l
    by (simp add: signUp_def validatedAction_def signUp_action_def find_None_email [OF fresh]
        Let_def)
  have u4: "user_id ?createdUser \<in> user_id ` set (users w4)"
    using frame by (simp add: prisma_invitation_update_def)
  have t4: "team_id team \<in> team_id ` set (teams w4)"
    using frame tid tin by (simp add: prisma_invitation_update_def)
  obtain w' where w': "teamMembers w' = teamMembers w4"
    "getSession E w' =
       Inr (Some \<lparr>userId = user_id ?createdUser, teamId = team_id team, userRole = ADMIN,
                 expires = toISOString E (now w4 + 24 * 60 * 60 * 1000)\<rparr>)"
    "(\<exists>e. signUp_finish E checkout ?createdUser team [l] formData w4 = (Threw e, w'))
     \<or> signUp_finish E checkout ?createdUser team [l] formData w4 =
         (if formData_get formData ''redirect'' = Some ''checkout''
          then checkout team (formData_get formData ''priceId'') w'
          else (Redirected ''/dashboard'', w'))"
    using signUp_finish_session [OF u4 t4, of E checkout l formData] by blast
  have "?row \<in> set (teamMembers w')"
    using w'(1) frame by (simp add: prisma_invitation_update_def)
  moreover have "getSession E w' =
      Inr (Some \<lparr>userId = cuid E (idCounter w), teamId = invitation_teamId invitation,
                userRole = ADMIN, expires = toISOString E (now w + 24 * 60 * 60 * 1000)\<rparr>)"
    using w'(2) frame tid by (simp add: prisma_invitation_update_def)
  ultimately show ?thesis
    using w'(3) run by (intro exI [of _ w']) simp
qed

text \<open>
  Bob signs up with a pending invitation as \<open>MEMBER\<close>: his membership row says \<open>MEMBER\<close>,
  his session says \<open>ADMIN\<close>.
\<close>

theorem signUp_invited_roles_witness:
  "email bobSignUp \<notin> user_email ` set (users invitedWorld)
 \<and> find (\<lambda>i. invitation_id i = ''i1'' \<and> invitation_email i = email bobSignUp \<and>
             invitation_status i = PENDING) (invitations invitedWorld) = Some invitation1
 \<and> find (\<lambda>t. team_id t = invitation_teamId invitation1) (teams invitedWorld) = Some team1
 \<and> invitation_role invitation1 = MEMBER
 \<and> (\<exists>w'. \<lparr>member_id = ''cc'', member_userId = ''c'', member_teamId = ''t1'',
            member_role = MEMBER, member_createdAt = 0\<rparr> \<in> set (teamMembers w')
       \<and> getSession testEnv w' =
           Inr (Some \<lparr>userId = ''c'', teamId = ''t1'', userRole = ADMIN,
                     expires = ''1970-01-02T00:00:00.000Z''\<rparr>)
       \<and> signUp testEnv (\<lambda>obj. Inr bobSignUp) noCheckout \<lparr>error = None, success = None\<rparr> []
            invitedWorld = (Redirected ''/dashboard'', w'))"
proof -
  have h1: "email bobSignUp \<notin> user_email ` set (users invitedWorld)"
    by (simp add: bobSignUp_def invitedWorld_def emptyWorld_def alice_def)
  have h2: "find (\<lambda>i. invitation_id i = ''i1'' \<and> invitation_email i = email bobSignUp \<and>
             invitation_status i = PENDING) (invitations invitedWorld) = Some invitation1"
    by (simp add: bobSignUp_def invitedWorld_def emptyWorld_def invitation1_def)
  have h3: "find (\<lambda>t. team_id t = invitation_teamId invitation1) (teams invitedWorld) = Some team1"
    by (simp add: invitedWorld_def emptyWorld_def invitation1_def team1_def)
  have h4: "inviteId bobSignUp = Some ''i1''" "''i1'' \<noteq> []"
    by (simp_all add: bobSignUp_def)
  obtain w' where w': "\<lparr>member_id = cuid testEnv (Suc (idCounter invitedWorld)),
        member_userId = cuid testEnv (idCounter invitedWorld),
        member_teamId = invitation_teamId invitation1,
        member_role = invitation_role invitation1, member_createdAt = now invitedWorld\<rparr>
          \<in> set (teamMembers w')"
    "getSession testEnv w' =
       Inr (Some \<lparr>userId = cuid testEnv (idCounter invitedWorld),
                 teamId = invitation_teamId invitation1, userRole = ADMIN,
                 expires = toISOString testEnv (now invitedWorld + 24 * 60 * 60 * 1000)\<rparr>)"
    "(\<exists>e. signUp testEnv (\<lambda>obj. Inr bobSignUp) noCheckout \<lparr>error = None, success = None\<rparr> []
            invitedWorld = (Threw e, w'))
     \<or> signUp testEnv (\<lambda>obj. Inr bobSignUp) noCheckout \<lparr>error = None, success = None\<rparr> []
            invitedWorld =
         (if formData_get [] ''redirect'' = Some ''checkout''
          then noCheckout team1 (formData_get [] ''priceId'') w'
          else (Redirected ''/dashboard'', w'))"
    using signUp_invited_roles [where signUpSchema = "\<lambda>obj. Inr bobSignUp" and formData = "[]"
        and d = bobSignUp and w = invitedWorld and iid = "''i1''" and invitation = invitation1
        and team = team1 and E = testEnv and checkout = noCheckout
        and prevState = "\<lparr>error = None, success = None\<rparr>", OF _ h1 h4 h2 h3]
    by auto
  have nothrow: "fst (signUp testEnv (\<lambda>obj. Inr bobSignUp) noCheckout
      \<lparr>error = None, success = None\<rparr> [] invitedWorld) = Redirected ''/dashboard''"
    by (simp add: signUp_def validatedAction_def signUp_action_def bobSignUp_def invitedWorld_def
        emptyWorld_def alice_def invitation1_def team1_def prisma_user_create_def
        prisma_teamMember_create_def prisma_invitation_update_def Let_def started_def
        logActivity_def getSession_def signUp_finish_def setSession_def
        verifyToken_signToken prisma_activityLog_create_def formData_get_def hashPassword_def
        testEnv_def)
  have "signUp testEnv (\<lambda>obj. Inr bobSignUp) noCheckout \<lparr>error = None, success = None\<rparr> []
      invitedWorld = (Redirected ''/dashboard'', w')"
    using w'(3) nothrow by (auto simp: formData_get_def)
  then show ?thesis
    using h1 h2 h3 w'(1,2)
    by (intro conjI exI [of _ w'])
       (simp_all add: invitation1_def invitedWorld_def emptyWorld_def testEnv_def)
qed

end
